theory Spec2Isabelle
  imports Main
begin

section \<open>The blog post title component\<close>

text \<open>
  The development embeds \<^verbatim>\<open>src/theme/BlogPostItem/Header/Title/index.js\<close>, the one
  component of the site that computes anything: \<^verbatim>\<open>BlogPostItemHeaderTitle\<close>. The
  component reads the post's metadata, builds a heading element and registers an effect
  that writes \<^verbatim>\<open>document.title\<close>.

  JavaScript strings are modelled as \<open>string\<close>. The only character the component
  inspects is the backtick, which is ASCII, so the width of a code unit plays no role.
\<close>

subsection \<open>Values the component handles\<close>

text \<open>
  What a JSX expression evaluates to, as far as the component builds it: a string child,
  the value \<^verbatim>\<open>undefined\<close> (which React renders as nothing), a fragment
  \<^verbatim>\<open><>...</>\<close>, or an element with its type, its props in source order and its
  children. A component type such as \<^verbatim>\<open>Link\<close> is an element whose type is the
  component's name.
\<close>

datatype jsx =
    Str string
  | Undefined
  | Fragment "jsx list"
  | Element string "(string \<times> string) list" "jsx list"

text \<open>The error a property access on \<^verbatim>\<open>undefined\<close> raises.\<close>

datatype js_error = TypeError

text \<open>
  The result of \<^verbatim>\<open>useBlogPost()\<close>, restricted to the fields the component
  destructures. A title that is absent from the metadata is \<open>None\<close>.
\<close>

record blog_post_metadata =
  permalink :: string
  title :: "string option"

record blog_post =
  metadata :: blog_post_metadata
  isBlogPostPage :: bool

subsection \<open>Library functions the component calls\<close>

text \<open>
  \<^verbatim>\<open>String.prototype.replace(pattern, replacement)\<close> with a string pattern: the
  first occurrence of the pattern, searching from the left, is replaced and the rest of
  the subject is kept; a subject without the pattern comes back unchanged. (The
  replacement's \<^verbatim>\<open>$\<close> escapes are not modelled: the component passes the empty
  replacement.)
\<close>

fun js_replace :: "string \<Rightarrow> string \<Rightarrow> string \<Rightarrow> string" where
  "js_replace pat rep [] = (if pat = [] then rep else [])"
| "js_replace pat rep (c # cs) =
     (if take (length pat) (c # cs) = pat then rep @ drop (length pat) (c # cs)
      else c # js_replace pat rep cs)"

text \<open>
  \<^verbatim>\<open>clsx(...args)\<close> on arguments that are strings or \<^verbatim>\<open>undefined\<close>: the
  truthy arguments (the non-empty strings), in order, joined by single spaces.
\<close>

definition clsx_step :: "string \<Rightarrow> string option \<Rightarrow> string" where
  "clsx_step str arg =
     (case arg of
        None \<Rightarrow> str
      | Some x \<Rightarrow> if x = [] then str else (if str = [] then [] else str @ '' '') @ x)"

definition clsx :: "string option list \<Rightarrow> string" where
  "clsx args = foldl clsx_step [] args"

subsection \<open>The component\<close>

text \<open>The title that the workaround replaces.\<close>

definition satisfies_title :: string where
  "satisfies_title = ''The `satisfies` Operator''"

text \<open>\<^verbatim>\<open>const TitleHeading = isBlogPostPage ? "h1" : "h2"\<close>\<close>

definition TitleHeading :: "bool \<Rightarrow> string" where
  "TitleHeading is_page = (if is_page then ''h1'' else ''h2'')"

text \<open>
  \<^verbatim>\<open>const title = rawTitle === "The `satisfies` Operator" ? <>...</> : rawTitle\<close>.
  The fragment's children are the text \<^verbatim>\<open>"The "\<close>, the \<^verbatim>\<open>code\<close> element and
  the text \<^verbatim>\<open>" operator"\<close>.
\<close>

definition title_of :: "string option \<Rightarrow> jsx" where
  "title_of rawTitle =
     (if rawTitle = Some satisfies_title
      then Fragment [Str ''The '', Element ''code'' [] [Str ''satisfies''], Str '' operator'']
      else (case rawTitle of None \<Rightarrow> Undefined | Some s \<Rightarrow> Str s))"

text \<open>
  The element the component returns. \<open>styles_title\<close> is the class name that the CSS
  module (which is not part of the sources at hand) exports as \<^verbatim>\<open>styles.title\<close>;
  \<open>className\<close> is the component's prop.
\<close>

definition BlogPostItemHeaderTitle :: "string \<Rightarrow> string option \<Rightarrow> blog_post \<Rightarrow> jsx" where
  "BlogPostItemHeaderTitle styles_title className post =
     (let rawTitle = title (metadata post);
          ttl = title_of rawTitle
      in Element (TitleHeading (isBlogPostPage post))
           [(''className'', clsx [Some styles_title, className]), (''itemProp'', ''headline'')]
           [if isBlogPostPage post then ttl
            else Element ''Link''
                   [(''itemProp'', ''url''), (''to'', permalink (metadata post))] [ttl]])"

text \<open>
  The body of the effect, \<^verbatim>\<open>document.title = rawTitle.replace("`", "")\<close>: the
  value it assigns, or the error of calling a method on \<^verbatim>\<open>undefined\<close>.
\<close>

definition document_title_effect :: "string option \<Rightarrow> js_error + string" where
  "document_title_effect rawTitle =
     (case rawTitle of
        None \<Rightarrow> Inl TypeError
      | Some s \<Rightarrow> Inr (js_replace ''`'' [] s))"

subsection \<open>Reading a rendered element\<close>

text \<open>The text a tree displays: its string children, in order.\<close>

fun text_content :: "jsx \<Rightarrow> string" where
  "text_content (Str s) = s"
| "text_content Undefined = []"
| "text_content (Fragment cs) = concat (map text_content cs)"
| "text_content (Element tag props cs) = concat (map text_content cs)"

text \<open>The value of a prop of an element, by name.\<close>

fun prop_of :: "jsx \<Rightarrow> string \<Rightarrow> string option" where
  "prop_of (Element tag props cs) name = map_of props name"
| "prop_of other name = None"

text \<open>The children of a fragment or of an element.\<close>

fun children :: "jsx \<Rightarrow> jsx list" where
  "children (Fragment cs) = cs"
| "children (Element tag props cs) = cs"
| "children other = []"

text \<open>
  The class list of a \<^verbatim>\<open>className\<close> value: its maximal runs of characters other
  than ASCII whitespace, in order. \<open>class_tokens cur s\<close> scans \<open>s\<close> with the token
  under construction in \<open>cur\<close>.
\<close>

definition is_space :: "char \<Rightarrow> bool" where
  "is_space c = (c = CHR '' '' \<or> c = CHR 0x09 \<or> c = CHR 0x0A \<or> c = CHR 0x0C \<or> c = CHR 0x0D)"

fun class_tokens :: "string \<Rightarrow> string \<Rightarrow> string list" where
  "class_tokens cur [] = (if cur = [] then [] else [cur])"
| "class_tokens cur (c # cs) =
     (if is_space c then (if cur = [] then class_tokens [] cs else cur # class_tokens [] cs)
      else class_tokens (cur @ [c]) cs)"

definition class_list :: "string \<Rightarrow> string list" where
  "class_list s = class_tokens [] s"

subsection \<open>Rendering over time\<close>

text \<open>
  The component registers its effect with \<^verbatim>\<open>useEffect(..., [title])\<close>. React runs
  an effect after the first render, and after a later render when some entry of the
  dependency array differs from the entry of the previous render under
  \<^verbatim>\<open>Object.is\<close>: strings are compared by their characters, objects by identity.
  A JSX expression builds a new object each time it is evaluated, so the identity of the
  fragment is the number of the allocation that made it.
\<close>

datatype dep = DepUndefined | DepString string | DepObject nat

text \<open>
  The state a render can read and write: the document's title, the dependency of the
  effect's last registration (\<open>None\<close> before the first render), the allocation counter,
  and a count of the effect's runs, kept for the statements below.
\<close>

record page =
  document_title :: string
  effect_deps :: "dep option"
  next_object :: nat
  effect_runs :: nat

text \<open>The dependency \<^verbatim>\<open>title\<close> as \<^verbatim>\<open>Object.is\<close> sees it.\<close>

definition title_dep :: "string option \<Rightarrow> nat \<Rightarrow> dep" where
  "title_dep rawTitle fresh =
     (if rawTitle = Some satisfies_title then DepObject fresh
      else (case rawTitle of None \<Rightarrow> DepUndefined | Some s \<Rightarrow> DepString s))"

definition allocated :: "string option \<Rightarrow> nat" where
  "allocated rawTitle = (if rawTitle = Some satisfies_title then 1 else 0)"

text \<open>
  One render of the component and the commit that follows it: the element returned, and
  the page after the effect has run or has been skipped. An error thrown by the effect
  is the result of the render.
\<close>

definition render :: "string \<Rightarrow> string option \<Rightarrow> blog_post \<Rightarrow> page \<Rightarrow> js_error + (jsx \<times> page)" where
  "render styles_title className post pg =
     (let rawTitle = title (metadata post);
          d = title_dep rawTitle (next_object pg);
          pg1 = pg\<lparr>next_object := next_object pg + allocated rawTitle\<rparr>;
          out = BlogPostItemHeaderTitle styles_title className post
      in if effect_deps pg = Some d then Inr (out, pg1)
         else (case document_title_effect rawTitle of
                 Inl e \<Rightarrow> Inl e
               | Inr t \<Rightarrow>
                   Inr (out, pg1\<lparr>document_title := t, effect_deps := Some d,
                                 effect_runs := Suc (effect_runs pg1)\<rparr>)))"

text \<open>A sequence of renders of the mounted component, stopping at the first error.\<close>

fun render_all :: "string \<Rightarrow> string option \<Rightarrow> blog_post list \<Rightarrow> page \<Rightarrow> js_error + (jsx list \<times> page)" where
  "render_all styles_title className [] pg = Inr ([], pg)"
| "render_all styles_title className (post # posts) pg =
     (case render styles_title className post pg of
        Inl e \<Rightarrow> Inl e
      | Inr (out, pg1) \<Rightarrow>
          (case render_all styles_title className posts pg1 of
             Inl e \<Rightarrow> Inl e
           | Inr (outs, pg2) \<Rightarrow> Inr (out # outs, pg2)))"

text \<open>The page before the component is mounted, with the title the document came with.\<close>

definition unmounted :: "string \<Rightarrow> page" where
  "unmounted initial_title =
     \<lparr>document_title = initial_title, effect_deps = None, next_object = 0, effect_runs = 0\<rparr>"

section \<open>Facts about the library functions\<close>

text \<open>
  Replacing a one-character pattern by the empty string removes the first occurrence of
  the character and nothing else.
\<close>

lemma js_replace_char:
  "js_replace [b] [] s = takeWhile (\<lambda>c. c \<noteq> b) s @ tl (dropWhile (\<lambda>c. c \<noteq> b) s)"
  by (induction s) auto

lemma js_replace_absent: "b \<notin> set s \<Longrightarrow> js_replace [b] [] s = s"
  by (induction s) auto

lemma js_replace_split:
  "b \<notin> set pre \<Longrightarrow> js_replace [b] [] (pre @ b # post) = pre @ post"
  by (induction pre) auto

lemma js_replace_count:
  "count_list (js_replace [b] [] s) b = count_list s b - 1"
  by (induction s) auto

lemma js_replace_length:
  "b \<in> set s \<Longrightarrow> Suc (length (js_replace [b] [] s)) = length s"
  by (induction s) auto

text \<open>
  A run of characters without whitespace is read into the current token; the class list
  of what \<^verbatim>\<open>clsx\<close> returns for two arguments starts with the first argument.
\<close>

lemma class_tokens_run:
  "\<forall>c \<in> set a. \<not> is_space c \<Longrightarrow> class_tokens cur (a @ r) = class_tokens (cur @ a) r"
  by (induction a arbitrary: cur) auto

lemma class_list_first:
  assumes "st \<noteq> []" "\<forall>c \<in> set st. \<not> is_space c"
  shows "class_list st = [st]" "class_list (st @ '' '' @ x) = st # class_list x"
  using assms class_tokens_run [of st "[]" "[]"] class_tokens_run [of st "[]" "'' '' @ x"]
  by (simp_all add: class_list_def is_space_def)

lemma clsx_two:
  "clsx [Some st, cn] = (if st = [] then (case cn of None \<Rightarrow> [] | Some x \<Rightarrow> x)
     else (case cn of None \<Rightarrow> st | Some x \<Rightarrow> if x = [] then st else st @ '' '' @ x))"
  by (simp add: clsx_def clsx_step_def split: option.splits)

section \<open>Titles other than the special case\<close>

text \<open>
  C1. For every title string other than the special-cased literal, the component renders
  the raw title unchanged as the heading content: directly inside an \<open>h1\<close> on the post
  page, and inside an \<open>h2\<close> whose only child is a link to the permalink otherwise.
\<close>

theorem C1_plain_title_rendered_verbatim:
  assumes "t \<noteq> satisfies_title"
  shows "BlogPostItemHeaderTitle st cn
           \<lparr>metadata = \<lparr>permalink = p, title = Some t\<rparr>, isBlogPostPage = True\<rparr>
         = Element ''h1''
             [(''className'', clsx [Some st, cn]), (''itemProp'', ''headline'')] [Str t]
       \<and> BlogPostItemHeaderTitle st cn
           \<lparr>metadata = \<lparr>permalink = p, title = Some t\<rparr>, isBlogPostPage = False\<rparr>
         = Element ''h2''
             [(''className'', clsx [Some st, cn]), (''itemProp'', ''headline'')]
             [Element ''Link'' [(''itemProp'', ''url''), (''to'', p)] [Str t]]"
  using assms by (simp add: BlogPostItemHeaderTitle_def title_of_def TitleHeading_def)

theorem C1_witness:
  "''Branded Types'' \<noteq> satisfies_title
   \<and> BlogPostItemHeaderTitle ''title_x'' None
       \<lparr>metadata = \<lparr>permalink = ''/articles/branded-types'', title = Some ''Branded Types''\<rparr>,
        isBlogPostPage = True\<rparr>
     = Element ''h1'' [(''className'', ''title_x''), (''itemProp'', ''headline'')]
         [Str ''Branded Types'']
   \<and> BlogPostItemHeaderTitle ''title_x'' None
       \<lparr>metadata = \<lparr>permalink = ''/articles/branded-types'', title = Some ''Branded Types''\<rparr>,
        isBlogPostPage = False\<rparr>
     = Element ''h2'' [(''className'', ''title_x''), (''itemProp'', ''headline'')]
         [Element ''Link'' [(''itemProp'', ''url''), (''to'', ''/articles/branded-types'')]
            [Str ''Branded Types'']]"
proof -
  have ne: "''Branded Types'' \<noteq> satisfies_title"
    by (simp add: satisfies_title_def)
  have cls: "clsx [Some ''title_x'', None] = ''title_x''"
    by (simp add: clsx_def clsx_step_def)
  show ?thesis
    using ne C1_plain_title_rendered_verbatim [OF ne, of "''title_x''" None "''/articles/branded-types''"]
    by (simp add: cls)
qed

text \<open>
  C7. Switching the page flag from false to true changes the heading's tag and removes
  the link around the content, and nothing else: the props of the heading and the content
  are the same, and so is the text displayed.
\<close>

theorem C7_flag_changes_only_the_wrapping:
  "BlogPostItemHeaderTitle st cn \<lparr>metadata = m, isBlogPostPage = True\<rparr>
   = Element ''h1'' [(''className'', clsx [Some st, cn]), (''itemProp'', ''headline'')]
       [title_of (title m)]
   \<and> BlogPostItemHeaderTitle st cn \<lparr>metadata = m, isBlogPostPage = False\<rparr>
   = Element ''h2'' [(''className'', clsx [Some st, cn]), (''itemProp'', ''headline'')]
       [Element ''Link'' [(''itemProp'', ''url''), (''to'', permalink m)] [title_of (title m)]]
   \<and> text_content (BlogPostItemHeaderTitle st cn \<lparr>metadata = m, isBlogPostPage = True\<rparr>)
     = text_content (BlogPostItemHeaderTitle st cn \<lparr>metadata = m, isBlogPostPage = False\<rparr>)"
  by (simp add: BlogPostItemHeaderTitle_def TitleHeading_def)

text \<open>
  C9. On the post page the element returned does not depend on the permalink, and in
  either mode the page that a render leaves behind (the document title among its fields),
  or the error it ends with, does not depend on the permalink.
\<close>

theorem C9_permalink_irrelevant_on_post_page:
  "BlogPostItemHeaderTitle st cn
     \<lparr>metadata = \<lparr>permalink = p1, title = t\<rparr>, isBlogPostPage = True\<rparr>
   = BlogPostItemHeaderTitle st cn
     \<lparr>metadata = \<lparr>permalink = p2, title = t\<rparr>, isBlogPostPage = True\<rparr>
   \<and> map_sum id snd (render st cn
       \<lparr>metadata = \<lparr>permalink = p1, title = t\<rparr>, isBlogPostPage = f\<rparr> pg)
     = map_sum id snd (render st cn
       \<lparr>metadata = \<lparr>permalink = p2, title = t\<rparr>, isBlogPostPage = f\<rparr> pg)"
  by (simp add: BlogPostItemHeaderTitle_def render_def Let_def split: sum.splits)

text \<open>
  C10. The heading always has the prop \<^verbatim>\<open>itemProp="headline"\<close>, and its
  \<^verbatim>\<open>className\<close> is what \<^verbatim>\<open>clsx\<close> makes of the module's title class and
  the \<^verbatim>\<open>className\<close> prop; when the module's title class is a class name (not
  empty, no whitespace), it is a member of the heading's class list.
\<close>

theorem C10_heading_props:
  assumes "st \<noteq> []" "\<forall>c \<in> set st. \<not> is_space c"
  shows "prop_of (BlogPostItemHeaderTitle st cn post) ''itemProp'' = Some ''headline''
       \<and> prop_of (BlogPostItemHeaderTitle st cn post) ''className'' = Some (clsx [Some st, cn])
       \<and> st \<in> set (class_list (clsx [Some st, cn]))"
proof -
  have "st \<in> set (class_list (clsx [Some st, cn]))"
    using assms class_list_first [OF assms]
    by (simp add: clsx_two split: option.splits)
  then show ?thesis by (simp add: BlogPostItemHeaderTitle_def Let_def)
qed

theorem C10_witness:
  "''title_x'' \<noteq> [] \<and> \<not> is_space (CHR ''_'')
   \<and> prop_of (BlogPostItemHeaderTitle ''title_x'' (Some ''margin-bottom--md'')
        \<lparr>metadata = \<lparr>permalink = ''/articles/branded-types'', title = Some ''Branded Types''\<rparr>,
         isBlogPostPage = False\<rparr>) ''itemProp'' = Some ''headline''
   \<and> ''title_x'' \<in> set (class_list ''title_x margin-bottom--md'')"
proof -
  have h1: "''title_x'' \<noteq> []" by simp
  have h2: "\<forall>c \<in> set ''title_x''. \<not> is_space c" by (simp add: is_space_def)
  have cls: "clsx [Some ''title_x'', Some ''margin-bottom--md''] = ''title_x margin-bottom--md''"
    by (simp add: clsx_def clsx_step_def)
  show ?thesis
    using h1 h2 C10_heading_props [OF h1 h2, of "Some ''margin-bottom--md''"
        "\<lparr>metadata = \<lparr>permalink = ''/articles/branded-types'', title = Some ''Branded Types''\<rparr>,
          isBlogPostPage = False\<rparr>"]
    by (simp add: cls)
qed

section \<open>The special-cased title\<close>

text \<open>
  C3, as stated, fails: the fragment substituted for the special-cased title does not
  end with the \<^verbatim>\<open>code\<close> element. After the prefix text and the code element
  comes the text \<^verbatim>\<open>" operator"\<close>.
\<close>

theorem C3_counterexample:
  "drop 2 (children (hd (children (BlogPostItemHeaderTitle ''title_x'' None
      \<lparr>metadata = \<lparr>permalink = ''/articles/satisfies'', title = Some satisfies_title\<rparr>,
       isBlogPostPage = True\<rparr>))))
   = [Str '' operator'']"
  by (simp add: BlogPostItemHeaderTitle_def title_of_def)

text \<open>
  C3, amended. For the special-cased title and for both values of the page flag, the
  heading content is the fixed fragment in place of the raw title: the text
  \<^verbatim>\<open>"The "\<close>, the word \<^verbatim>\<open>satisfies\<close> in a \<^verbatim>\<open>code\<close> element, and the
  text \<^verbatim>\<open>" operator"\<close> after it.
\<close>

theorem C3_satisfies_title_markup:
  "BlogPostItemHeaderTitle st cn
     \<lparr>metadata = \<lparr>permalink = p, title = Some satisfies_title\<rparr>, isBlogPostPage = True\<rparr>
   = Element ''h1'' [(''className'', clsx [Some st, cn]), (''itemProp'', ''headline'')]
       [Fragment [Str ''The '', Element ''code'' [] [Str ''satisfies''], Str '' operator'']]
   \<and> BlogPostItemHeaderTitle st cn
     \<lparr>metadata = \<lparr>permalink = p, title = Some satisfies_title\<rparr>, isBlogPostPage = False\<rparr>
   = Element ''h2'' [(''className'', clsx [Some st, cn]), (''itemProp'', ''headline'')]
       [Element ''Link'' [(''itemProp'', ''url''), (''to'', p)]
          [Fragment [Str ''The '', Element ''code'' [] [Str ''satisfies''], Str '' operator'']]]"
  by (simp add: BlogPostItemHeaderTitle_def title_of_def TitleHeading_def)

text \<open>
  C4. On the post page the special-cased title is rendered as
  \<^verbatim>\<open><h1>The <code>satisfies</code> operator</h1>\<close>, but the first render leaves the
  document title \<^verbatim>\<open>The satisfies` Operator\<close>: the second backtick of the raw
  title is still there, so the document title is not \<^verbatim>\<open>The satisfies Operator\<close>.
\<close>

theorem C4_satisfies_title_on_post_page:
  "render st cn
     \<lparr>metadata = \<lparr>permalink = p, title = Some satisfies_title\<rparr>, isBlogPostPage = True\<rparr>
     (unmounted d)
   = Inr (Element ''h1'' [(''className'', clsx [Some st, cn]), (''itemProp'', ''headline'')]
            [Fragment [Str ''The '', Element ''code'' [] [Str ''satisfies''], Str '' operator'']],
          \<lparr>document_title = ''The satisfies` Operator'', effect_deps = Some (DepObject 0),
           next_object = 1, effect_runs = 1\<rparr>)
   \<and> ''The satisfies` Operator'' \<noteq> ''The satisfies Operator''
   \<and> CHR ''`'' \<in> set ''The satisfies` Operator''"
  by (simp add: render_def unmounted_def BlogPostItemHeaderTitle_def title_of_def
      TitleHeading_def title_dep_def allocated_def document_title_effect_def satisfies_title_def)

section \<open>The document title\<close>

text \<open>
  C2, as stated, fails: the title \<^verbatim>\<open>a`b\<close> is not the special-cased literal,
  and the effect does not assign it verbatim.
\<close>

theorem C2_counterexample:
  "''a`b'' \<noteq> satisfies_title \<and> document_title_effect (Some ''a`b'') \<noteq> Inr ''a`b''"
  by (simp add: satisfies_title_def document_title_effect_def)

text \<open>
  C2, amended. For the special-cased literal the effect removes exactly one backtick,
  the first, and keeps the rest of the text; for every other title that contains no
  backtick the document title is the raw title verbatim.
\<close>

theorem C2_document_title:
  "document_title_effect (Some satisfies_title) = Inr (''The '' @ ''satisfies` Operator'')
   \<and> satisfies_title = ''The '' @ ''`'' @ ''satisfies` Operator''
   \<and> (t \<noteq> satisfies_title \<and> CHR ''`'' \<notin> set t \<longrightarrow> document_title_effect (Some t) = Inr t)"
proof -
  have "document_title_effect (Some satisfies_title) = Inr (''The '' @ ''satisfies` Operator'')"
    by (simp add: satisfies_title_def document_title_effect_def)
  moreover have "satisfies_title = ''The '' @ ''`'' @ ''satisfies` Operator''"
    by (simp add: satisfies_title_def)
  moreover have "CHR ''`'' \<notin> set t \<Longrightarrow> document_title_effect (Some t) = Inr t"
    by (simp add: document_title_effect_def js_replace_absent)
  ultimately show ?thesis by blast
qed

theorem C2_witness:
  "''Branded Types'' \<noteq> satisfies_title \<and> CHR ''`'' \<notin> set ''Branded Types''
   \<and> document_title_effect (Some ''Branded Types'') = Inr ''Branded Types''"
proof -
  have h: "''Branded Types'' \<noteq> satisfies_title \<and> CHR ''`'' \<notin> set ''Branded Types''"
    by (simp add: satisfies_title_def)
  show ?thesis using h C2_document_title [of "''Branded Types''"] by blast
qed

text \<open>
  C8. For a title that contains a backtick, the effect removes the first backtick and
  nothing else: the text before it and the whole text after it, later backticks
  included, are kept. The document title has one backtick fewer than the raw title, so it
  differs from the raw title, and unless the raw title has exactly one backtick the
  document title still contains one.
\<close>

theorem C8_only_first_backtick_removed:
  assumes "CHR ''`'' \<in> set t"
  shows "document_title_effect (Some t)
         = Inr (takeWhile (\<lambda>c. c \<noteq> CHR ''`'') t @ tl (dropWhile (\<lambda>c. c \<noteq> CHR ''`'') t))
       \<and> count_list (js_replace ''`'' [] t) (CHR ''`'') = count_list t (CHR ''`'') - 1
       \<and> document_title_effect (Some t) \<noteq> Inr t
       \<and> (count_list t (CHR ''`'') \<noteq> 1 \<longrightarrow> CHR ''`'' \<in> set (js_replace ''`'' [] t))"
proof -
  let ?b = "CHR ''`''"
  have eff: "document_title_effect (Some t) = Inr (js_replace [?b] [] t)"
    by (simp add: document_title_effect_def)
  have cnt: "count_list (js_replace [?b] [] t) ?b = count_list t ?b - 1"
    by (rule js_replace_count)
  have "Suc (length (js_replace [?b] [] t)) = length t"
    using assms by (rule js_replace_length)
  then have ne: "js_replace [?b] [] t \<noteq> t" by auto
  have pos: "0 < count_list t ?b"
    using assms count_list_0_iff [of t ?b] by auto
  have "count_list t ?b \<noteq> 1 \<Longrightarrow> ?b \<in> set (js_replace [?b] [] t)"
  proof -
    assume "count_list t ?b \<noteq> 1"
    with pos cnt have "0 < count_list (js_replace [?b] [] t) ?b" by simp
    then show ?thesis using count_list_0_iff [of "js_replace [?b] [] t" ?b] by auto
  qed
  with eff cnt ne show ?thesis by (simp add: js_replace_char)
qed

theorem C8_witness:
  "CHR ''`'' \<in> set ''The `satisfies` Operator''
   \<and> document_title_effect (Some ''The `satisfies` Operator'') = Inr ''The satisfies` Operator''
   \<and> count_list (js_replace ''`'' [] ''The `satisfies` Operator'') (CHR ''`'') = 1
   \<and> CHR ''`'' \<in> set (js_replace ''`'' [] ''The `satisfies` Operator'')"
proof -
  have h: "CHR ''`'' \<in> set ''The `satisfies` Operator''" by simp
  show ?thesis using h C8_only_first_backtick_removed [OF h] by simp
qed

section \<open>Renders in sequence\<close>

text \<open>
  A title other than the special-cased one is compared by its characters: rendering it
  again skips the effect and leaves the page as it was.
\<close>

lemma render_plain_title_again:
  assumes "t \<noteq> satisfies_title" "effect_deps pg = Some (DepString t)"
  shows "render st cn \<lparr>metadata = \<lparr>permalink = p, title = Some t\<rparr>, isBlogPostPage = f\<rparr> pg
         = Inr (BlogPostItemHeaderTitle st cn
                  \<lparr>metadata = \<lparr>permalink = p, title = Some t\<rparr>, isBlogPostPage = f\<rparr>, pg)"
  using assms by (simp add: render_def title_dep_def allocated_def)

text \<open>
  C5. Two renders in a row of the special-cased title, with identical inputs, return
  identical elements, and the effect runs after each of them: the dependency is the
  fragment, and the second render's fragment is a new object.
\<close>

theorem C5_satisfies_title_rendered_twice:
  "render_all st cn
     [\<lparr>metadata = \<lparr>permalink = p, title = Some satisfies_title\<rparr>, isBlogPostPage = f\<rparr>,
      \<lparr>metadata = \<lparr>permalink = p, title = Some satisfies_title\<rparr>, isBlogPostPage = f\<rparr>]
     (unmounted d)
   = Inr ([BlogPostItemHeaderTitle st cn
             \<lparr>metadata = \<lparr>permalink = p, title = Some satisfies_title\<rparr>, isBlogPostPage = f\<rparr>,
           BlogPostItemHeaderTitle st cn
             \<lparr>metadata = \<lparr>permalink = p, title = Some satisfies_title\<rparr>, isBlogPostPage = f\<rparr>],
          \<lparr>document_title = ''The satisfies` Operator'', effect_deps = Some (DepObject 1),
           next_object = 2, effect_runs = 2\<rparr>)"
  by (simp add: render_def unmounted_def title_dep_def allocated_def document_title_effect_def
      satisfies_title_def)

text \<open>
  C6, as stated, fails: with the title absent from the metadata, the first render ends
  with the \<^verbatim>\<open>TypeError\<close> of the effect's call of \<^verbatim>\<open>replace\<close> on
  \<^verbatim>\<open>undefined\<close>.
\<close>

theorem C6_counterexample:
  "render ''title_x'' None
     \<lparr>metadata = \<lparr>permalink = ''/articles/untitled'', title = None\<rparr>, isBlogPostPage = True\<rparr>
     (unmounted ''Learning TypeScript'')
   = Inl TypeError"
  by (simp add: render_def unmounted_def title_dep_def allocated_def document_title_effect_def)

text \<open>
  C6, amended. For every title that is a string, the empty string included, a render
  completes without error, whatever the page was before. An empty title is rendered as
  empty heading content, and its first render sets the document title to the empty
  string. With the title absent, the first render ends with a \<^verbatim>\<open>TypeError\<close>.
\<close>

theorem C6_string_titles_never_fail:
  "(\<exists>out pg'. render st cn
       \<lparr>metadata = \<lparr>permalink = p, title = Some t\<rparr>, isBlogPostPage = f\<rparr> pg = Inr (out, pg'))
   \<and> text_content (BlogPostItemHeaderTitle st cn
       \<lparr>metadata = \<lparr>permalink = p, title = Some []\<rparr>, isBlogPostPage = f\<rparr>) = []
   \<and> render st cn \<lparr>metadata = \<lparr>permalink = p, title = Some []\<rparr>, isBlogPostPage = True\<rparr>
       (unmounted d)
     = Inr (Element ''h1'' [(''className'', clsx [Some st, cn]), (''itemProp'', ''headline'')]
              [Str []],
            \<lparr>document_title = [], effect_deps = Some (DepString []), next_object = 0,
             effect_runs = 1\<rparr>)
   \<and> render st cn \<lparr>metadata = \<lparr>permalink = p, title = None\<rparr>, isBlogPostPage = f\<rparr>
       (unmounted d) = Inl TypeError"
proof -
  have "\<exists>out pg'. render st cn
       \<lparr>metadata = \<lparr>permalink = p, title = Some t\<rparr>, isBlogPostPage = f\<rparr> pg = Inr (out, pg')"
    by (simp add: render_def document_title_effect_def Let_def)
  moreover have "text_content (BlogPostItemHeaderTitle st cn
       \<lparr>metadata = \<lparr>permalink = p, title = Some []\<rparr>, isBlogPostPage = f\<rparr>) = []"
    by (simp add: BlogPostItemHeaderTitle_def title_of_def satisfies_title_def Let_def)
  moreover have "render st cn \<lparr>metadata = \<lparr>permalink = p, title = Some []\<rparr>, isBlogPostPage = True\<rparr>
       (unmounted d)
     = Inr (Element ''h1'' [(''className'', clsx [Some st, cn]), (''itemProp'', ''headline'')]
              [Str []],
            \<lparr>document_title = [], effect_deps = Some (DepString []), next_object = 0,
             effect_runs = 1\<rparr>)"
    by (simp add: render_def unmounted_def title_dep_def allocated_def document_title_effect_def
        BlogPostItemHeaderTitle_def title_of_def TitleHeading_def satisfies_title_def)
  moreover have "render st cn \<lparr>metadata = \<lparr>permalink = p, title = None\<rparr>, isBlogPostPage = f\<rparr>
       (unmounted d) = Inl TypeError"
    by (simp add: render_def unmounted_def title_dep_def allocated_def document_title_effect_def)
  ultimately show ?thesis by blast
qed

end
